theory Spec2Isabelle
  imports Complex_Main
begin

section \<open>Documents and collections of the storefront backend\<close>

text \<open>
  The model follows \<^verbatim>\<open>backend/server.py\<close>. A MongoDB collection is the list of its
  documents in insertion order; a document is a record of the fields the modelled
  handlers read or write. Python floats (prices, totals, ratings) are modelled as exact
  rationals; Python ints as \<open>int\<close>. The values the handlers draw from outside
  (\<^verbatim>\<open>uuid.uuid4()\<close>, \<^verbatim>\<open>datetime.now()\<close>, environment variables, the
  answers of the payment processors, the HMAC of the standard library) are parameters.
\<close>

type_synonym float = rat

record product_doc =
  prod_id :: string
  prod_name :: string
  prod_price :: float
  prod_rating :: float
  prod_reviews_count :: int

text \<open>\<^verbatim>\<open>class CartItem(BaseModel): product_id: str; quantity: int\<close>\<close>

record cart_item =
  product_id :: string
  quantity :: int

record cart_doc =
  cart_user_id :: string
  cart_items :: "cart_item list"

text \<open>An entry of \<^verbatim>\<open>items_details\<close>: a priced line of a checkout.\<close>

record line_item =
  line_product_id :: string
  line_name :: string
  line_price :: float
  line_quantity :: int

text \<open>
  A document of \<^verbatim>\<open>payment_transactions\<close>. Stripe rows carry \<^verbatim>\<open>session_id\<close>,
  Razorpay rows \<^verbatim>\<open>razorpay_order_id\<close>; a key the document does not have is \<open>None\<close>.
\<close>

record transaction_doc =
  txn_id :: string
  txn_session_id :: "string option"
  txn_razorpay_order_id :: "string option"
  txn_user_id :: string
  txn_amount :: float
  txn_currency :: string
  txn_payment_method :: string
  txn_payment_status :: string
  txn_items :: "line_item list"
  txn_created_at :: string
  txn_razorpay_payment_id :: "string option"
  txn_updated_at :: "string option"

record order_doc =
  ord_id :: string
  ord_user_id :: string
  ord_items :: "line_item list"
  ord_total_amount :: float
  ord_payment_method :: string
  ord_payment_status :: string
  ord_payment_session_id :: "string option"
  ord_razorpay_order_id :: "string option"
  ord_razorpay_payment_id :: "string option"
  ord_order_status :: string
  ord_shipping_address :: "(string \<times> string) list"
  ord_created_at :: string

record review_doc =
  rev_id :: string
  rev_product_id :: string
  rev_user_id :: string
  rev_user_name :: string
  rev_rating :: int
  rev_title :: string
  rev_comment :: string
  rev_created_at :: string

text \<open>\<^verbatim>\<open>CheckoutSessionRequest\<close> as the Stripe handler fills it.\<close>

record checkout_session_request =
  csr_amount :: float
  csr_currency :: string
  csr_success_url :: string
  csr_cancel_url :: string
  csr_metadata_user_id :: string
  csr_metadata_items :: "line_item list"


record checkout_status_response =
  st_status :: string
  st_payment_status :: string
  st_amount_total :: int
  st_currency :: string

record webhook_response =
  wh_session_id :: string
  wh_payment_status :: string

text \<open>\<^verbatim>\<open>order_data\<close> sent to Razorpay and the order it answers with.\<close>

record razorpay_order_data =
  rod_amount :: int
  rod_currency :: string
  rod_payment_capture :: int



record review_create =
  rc_product_id :: string
  rc_rating :: int
  rc_title :: string
  rc_comment :: string

record user_doc =
  user_id :: string
  user_name :: string

text \<open>
  The database, and with it what the two payment processors have been asked to create:
  \<open>stripe_sessions\<close> and \<open>razorpay_orders\<close> log the requests of the gateway calls that
  succeeded.
\<close>

record state =
  products :: "product_doc list"
  carts :: "cart_doc list"
  payment_transactions :: "transaction_doc list"
  orders :: "order_doc list"
  reviews :: "review_doc list"
  stripe_sessions :: "checkout_session_request list"
  razorpay_orders :: "razorpay_order_data list"

text \<open>
  What a handler can raise: \<^verbatim>\<open>HTTPException(status_code, detail)\<close>, an exception of a
  gateway call, and the \<^verbatim>\<open>AttributeError\<close> of \<^verbatim>\<open>None.encode()\<close>.
\<close>

datatype error = HTTPException int string | GatewayError string | AttributeError

section \<open>Collection operations\<close>

text \<open>\<^verbatim>\<open>find_one(filter)\<close>: the first document that matches.\<close>

fun find_one :: "('a \<Rightarrow> bool) \<Rightarrow> 'a list \<Rightarrow> 'a option" where
  "find_one P [] = None"
| "find_one P (x # xs) = (if P x then Some x else find_one P xs)"

text \<open>
  \<^verbatim>\<open>update_one(filter, update)\<close>: the update applied to the first document that
  matches, nothing when none does. The same function is the positional operator
  \<^verbatim>\<open>items.$\<close> on the array of the matched document.
\<close>

fun update_one :: "('a \<Rightarrow> bool) \<Rightarrow> ('a \<Rightarrow> 'a) \<Rightarrow> 'a list \<Rightarrow> 'a list" where
  "update_one P f [] = []"
| "update_one P f (x # xs) = (if P x then f x # xs else x # update_one P f xs)"

text \<open>\<^verbatim>\<open>{"$pull": {"items": {"product_id": pid}}}\<close>: every matching element leaves.\<close>

definition pull_items :: "string \<Rightarrow> cart_doc \<Rightarrow> cart_doc" where
  "pull_items pid c = c\<lparr>cart_items := filter (\<lambda>i. product_id i \<noteq> pid) (cart_items c)\<rparr>"

definition has_item :: "string \<Rightarrow> cart_doc \<Rightarrow> bool" where
  "has_item pid c = (find_one (\<lambda>i. product_id i = pid) (cart_items c) \<noteq> None)"

section \<open>Numbers\<close>

text \<open>
  \<^verbatim>\<open>round(x, n)\<close> of Python 3: to the nearest multiple of \<open>10\<^sup>-\<^sup>n\<close>, a tie to the even
  one. The model rounds the exact rational; Python rounds the binary double, which
  differs only where the double nearest to a decimal tie lies on the other side of it.
\<close>

definition py_round :: "float \<Rightarrow> nat \<Rightarrow> float" where
  "py_round x n =
     (let y = x * 10 ^ n; f = \<lfloor>y\<rfloor>; d = y - of_int f
      in of_int (if d < 1 / 2 then f else if 1 / 2 < d then f + 1
                 else if even f then f else f + 1) / 10 ^ n)"


section \<open>Cart routes\<close>

text \<open>\<^verbatim>\<open>POST /cart/add\<close>\<close>

definition add_to_cart :: "cart_item \<Rightarrow> string \<Rightarrow> state \<Rightarrow> state" where
  "add_to_cart item uid s =
     (case find_one (\<lambda>c. cart_user_id c = uid) (carts s) of
        None \<Rightarrow>
          s\<lparr>carts := carts s @
               [\<lparr>cart_user_id = uid,
                 cart_items = [\<lparr>product_id = product_id item, quantity = quantity item\<rparr>]\<rparr>]\<rparr>
      | Some cart \<Rightarrow>
          (case find_one (\<lambda>i. product_id i = product_id item) (cart_items cart) of
             Some existing \<Rightarrow>
               s\<lparr>carts := update_one
                    (\<lambda>c. cart_user_id c = uid \<and> has_item (product_id item) c)
                    (\<lambda>c. c\<lparr>cart_items := update_one
                              (\<lambda>i. product_id i = product_id item)
                              (\<lambda>i. i\<lparr>quantity := quantity i + quantity item\<rparr>)
                              (cart_items c)\<rparr>)
                    (carts s)\<rparr>
           | None \<Rightarrow>
               s\<lparr>carts := update_one
                    (\<lambda>c. cart_user_id c = uid)
                    (\<lambda>c. c\<lparr>cart_items := cart_items c @
                              [\<lparr>product_id = product_id item, quantity = quantity item\<rparr>]\<rparr>)
                    (carts s)\<rparr>))"

text \<open>\<^verbatim>\<open>PUT /cart/update\<close>\<close>

definition update_cart_item :: "cart_item \<Rightarrow> string \<Rightarrow> state \<Rightarrow> state" where
  "update_cart_item item uid s =
     (if quantity item \<le> 0 then
        s\<lparr>carts := update_one (\<lambda>c. cart_user_id c = uid) (pull_items (product_id item)) (carts s)\<rparr>
      else
        s\<lparr>carts := update_one
             (\<lambda>c. cart_user_id c = uid \<and> has_item (product_id item) c)
             (\<lambda>c. c\<lparr>cart_items := update_one
                       (\<lambda>i. product_id i = product_id item)
                       (\<lambda>i. i\<lparr>quantity := quantity item\<rparr>)
                       (cart_items c)\<rparr>)
             (carts s)\<rparr>)"

text \<open>\<^verbatim>\<open>DELETE /cart/remove/{product_id}\<close>\<close>

definition remove_from_cart :: "string \<Rightarrow> string \<Rightarrow> state \<Rightarrow> state" where
  "remove_from_cart pid uid s =
     s\<lparr>carts := update_one (\<lambda>c. cart_user_id c = uid) (pull_items pid) (carts s)\<rparr>"

text \<open>\<^verbatim>\<open>DELETE /cart/clear\<close>\<close>

definition clear_cart :: "string \<Rightarrow> state \<Rightarrow> state" where
  "clear_cart uid s =
     s\<lparr>carts := update_one (\<lambda>c. cart_user_id c = uid) (\<lambda>c. c\<lparr>cart_items := []\<rparr>) (carts s)\<rparr>"

text \<open>Every stored cart line has a quantity of at least one.\<close>

definition cart_ok :: "state \<Rightarrow> bool" where
  "cart_ok s = list_all (\<lambda>c. list_all (\<lambda>i. 1 \<le> quantity i) (cart_items c)) (carts s)"

section \<open>Checkout initiation\<close>




section \<open>Reconciliation\<close>

text \<open>
  The fresh values one reconciliation draws: the uuid of the order and the two readings
  of the clock (\<^verbatim>\<open>updated_at\<close> of the transaction, \<^verbatim>\<open>created_at\<close> of the order).
\<close>

record fresh =
  new_id :: string
  now_updated :: string
  now_created :: string

text \<open>
  The two reads of the ledger:
  \<^verbatim>\<open>db.payment_transactions.find_one({"session_id": session_id})\<close> and
  \<^verbatim>\<open>db.payment_transactions.find_one({"razorpay_order_id": razorpay_order_id})\<close>.
\<close>

definition find_by_session_id :: "string \<Rightarrow> state \<Rightarrow> transaction_doc option" where
  "find_by_session_id session_id s =
     find_one (\<lambda>t. txn_session_id t = Some session_id) (payment_transactions s)"

definition find_by_razorpay_order_id :: "string \<Rightarrow> state \<Rightarrow> transaction_doc option" where
  "find_by_razorpay_order_id razorpay_order_id s =
     find_one (\<lambda>t. txn_razorpay_order_id t = Some razorpay_order_id) (payment_transactions s)"

text \<open>
  The database calls of \<^verbatim>\<open>get_checkout_status\<close>, one definition per awaited call:
  the status write (its filter is the session id alone), the order document and its
  insertion. The cart write is the update of \<^const>\<open>clear_cart\<close>.
\<close>

definition stripe_set_paid :: "string \<Rightarrow> string \<Rightarrow> state \<Rightarrow> state" where
  "stripe_set_paid session_id now s =
     s\<lparr>payment_transactions := update_one
          (\<lambda>t. txn_session_id t = Some session_id)
          (\<lambda>t. t\<lparr>txn_payment_status := ''paid'', txn_updated_at := Some now\<rparr>)
          (payment_transactions s)\<rparr>"

definition stripe_order :: "transaction_doc \<Rightarrow> string \<Rightarrow> fresh \<Rightarrow> order_doc" where
  "stripe_order transaction session_id fr =
     \<lparr>ord_id = new_id fr, ord_user_id = txn_user_id transaction,
      ord_items = txn_items transaction, ord_total_amount = txn_amount transaction,
      ord_payment_method = ''stripe'', ord_payment_status = ''paid'',
      ord_payment_session_id = Some session_id, ord_razorpay_order_id = None,
      ord_razorpay_payment_id = None, ord_order_status = ''confirmed'',
      ord_shipping_address = [], ord_created_at = now_created fr\<rparr>"

definition insert_order :: "order_doc \<Rightarrow> state \<Rightarrow> state" where
  "insert_order order s = s\<lparr>orders := orders s @ [order]\<rparr>"

text \<open>
  \<^verbatim>\<open>GET /checkout/status/{session_id}\<close>. \<open>status\<close> is what the Stripe client
  answered for the session; the reply repeats it.
\<close>

definition get_checkout_status ::
  "checkout_status_response \<Rightarrow> string \<Rightarrow> fresh \<Rightarrow> state \<Rightarrow> checkout_status_response \<times> state" where
  "get_checkout_status status session_id fr s =
     (status,
      if st_payment_status status = ''paid'' then
        (case find_by_session_id session_id s of
           Some transaction \<Rightarrow>
             if txn_payment_status transaction \<noteq> ''paid'' then
               clear_cart (txn_user_id transaction)
                 (insert_order (stripe_order transaction session_id fr)
                    (stripe_set_paid session_id (now_updated fr) s))
             else s
         | None \<Rightarrow> s)
      else s)"

text \<open>
  \<^verbatim>\<open>POST /webhook/stripe\<close>. \<open>handled\<close> is the outcome of \<^verbatim>\<open>handle_webhook(body,
  signature)\<close>: the event, or the exception the \<^verbatim>\<open>try\<close> catches. The reply is the
  \<^verbatim>\<open>status\<close> string.
\<close>

definition stripe_webhook :: "error + webhook_response \<Rightarrow> state \<Rightarrow> string \<times> state" where
  "stripe_webhook handled s =
     (case handled of
        Inl e \<Rightarrow> (''error'', s)
      | Inr webhook_response \<Rightarrow>
          if wh_payment_status webhook_response = ''paid'' then
            (''processed'',
             s\<lparr>payment_transactions := update_one
                  (\<lambda>t. txn_session_id t = Some (wh_session_id webhook_response))
                  (\<lambda>t. t\<lparr>txn_payment_status := ''paid''\<rparr>)
                  (payment_transactions s)\<rparr>)
          else (''processed'', s))"

text \<open>The database calls of \<^verbatim>\<open>verify_razorpay_payment\<close>.\<close>

definition razorpay_set_paid :: "string \<Rightarrow> string \<Rightarrow> string \<Rightarrow> state \<Rightarrow> state" where
  "razorpay_set_paid razorpay_order_id razorpay_payment_id now s =
     s\<lparr>payment_transactions := update_one
          (\<lambda>t. txn_razorpay_order_id t = Some razorpay_order_id)
          (\<lambda>t. t\<lparr>txn_payment_status := ''paid'',
                  txn_razorpay_payment_id := Some razorpay_payment_id,
                  txn_updated_at := Some now\<rparr>)
          (payment_transactions s)\<rparr>"

definition razorpay_order_doc :: "transaction_doc \<Rightarrow> string \<Rightarrow> string \<Rightarrow> fresh \<Rightarrow> order_doc" where
  "razorpay_order_doc transaction razorpay_order_id razorpay_payment_id fr =
     \<lparr>ord_id = new_id fr, ord_user_id = txn_user_id transaction,
      ord_items = txn_items transaction, ord_total_amount = txn_amount transaction,
      ord_payment_method = ''razorpay'', ord_payment_status = ''paid'',
      ord_payment_session_id = None, ord_razorpay_order_id = Some razorpay_order_id,
      ord_razorpay_payment_id = Some razorpay_payment_id, ord_order_status = ''confirmed'',
      ord_shipping_address = [], ord_created_at = now_created fr\<rparr>"

text \<open>
  \<^verbatim>\<open>POST /checkout/razorpay/verify\<close>. \<open>hmac_hex key msg\<close> stands for
  \<^verbatim>\<open>hmac.new(key, msg, hashlib.sha256).hexdigest()\<close>, \<open>razorpay_secret\<close> for the
  environment variable (\<open>None\<close> when unset, where \<^verbatim>\<open>.encode()\<close> raises).
\<close>

definition verify_razorpay_payment ::
  "(string \<Rightarrow> string \<Rightarrow> string) \<Rightarrow> string option \<Rightarrow> string \<Rightarrow> string \<Rightarrow> string \<Rightarrow> fresh \<Rightarrow>
   state \<Rightarrow> (error + string \<times> string) \<times> state" where
  "verify_razorpay_payment hmac_hex razorpay_secret razorpay_order_id razorpay_payment_id
       razorpay_signature fr s =
     (case razorpay_secret of
        None \<Rightarrow> (Inl AttributeError, s)
      | Some secret \<Rightarrow>
          let msg = razorpay_order_id @ ''|'' @ razorpay_payment_id;
              generated_signature = hmac_hex secret msg
          in if generated_signature \<noteq> razorpay_signature then
               (Inl (HTTPException 400 ''Invalid payment signature''), s)
             else
               (Inr (''success'', ''Payment verified''),
                case find_by_razorpay_order_id razorpay_order_id s of
                  Some transaction \<Rightarrow>
                    if txn_payment_status transaction \<noteq> ''paid'' then
                      clear_cart (txn_user_id transaction)
                        (insert_order
                           (razorpay_order_doc transaction razorpay_order_id razorpay_payment_id fr)
                           (razorpay_set_paid razorpay_order_id razorpay_payment_id
                              (now_updated fr) s))
                    else s
                | None \<Rightarrow> s))"

section \<open>The handlers, one database call at a time\<close>

text \<open>
  Every \<^verbatim>\<open>await db...\<close> is a point where the event loop may run another request.
  A handler in progress is its program point, with the transaction it has read, and one
  step runs it up to and including its next database call: the read
  (\<^verbatim>\<open>find_one\<close>, with the checks before it), the status write, the order insertion,
  the cart write.
\<close>

datatype pc =
    At_find
  | At_update transaction_doc
  | At_insert transaction_doc
  | At_clear transaction_doc
  | At_return
  | At_raised error

fun poll_step ::
  "checkout_status_response \<Rightarrow> string \<Rightarrow> fresh \<Rightarrow> pc \<times> state \<Rightarrow> pc \<times> state" where
  "poll_step status session_id fr (At_find, s) =
     (if st_payment_status status = ''paid'' then
        (case find_by_session_id session_id s of
           Some transaction \<Rightarrow>
             if txn_payment_status transaction \<noteq> ''paid'' then (At_update transaction, s)
             else (At_return, s)
         | None \<Rightarrow> (At_return, s))
      else (At_return, s))"
| "poll_step status session_id fr (At_update transaction, s) =
     (At_insert transaction, stripe_set_paid session_id (now_updated fr) s)"
| "poll_step status session_id fr (At_insert transaction, s) =
     (At_clear transaction, insert_order (stripe_order transaction session_id fr) s)"
| "poll_step status session_id fr (At_clear transaction, s) =
     (At_return, clear_cart (txn_user_id transaction) s)"
| "poll_step status session_id fr (At_return, s) = (At_return, s)"
| "poll_step status session_id fr (At_raised e, s) = (At_raised e, s)"

fun verify_step ::
  "(string \<Rightarrow> string \<Rightarrow> string) \<Rightarrow> string option \<Rightarrow> string \<Rightarrow> string \<Rightarrow> string \<Rightarrow> fresh \<Rightarrow>
   pc \<times> state \<Rightarrow> pc \<times> state" where
  "verify_step hmac_hex razorpay_secret razorpay_order_id razorpay_payment_id
       razorpay_signature fr (At_find, s) =
     (case razorpay_secret of
        None \<Rightarrow> (At_raised AttributeError, s)
      | Some secret \<Rightarrow>
          if hmac_hex secret (razorpay_order_id @ ''|'' @ razorpay_payment_id) \<noteq> razorpay_signature
          then (At_raised (HTTPException 400 ''Invalid payment signature''), s)
          else
            (case find_by_razorpay_order_id razorpay_order_id s of
               Some transaction \<Rightarrow>
                 if txn_payment_status transaction \<noteq> ''paid'' then (At_update transaction, s)
                 else (At_return, s)
             | None \<Rightarrow> (At_return, s)))"
| "verify_step hmac_hex razorpay_secret razorpay_order_id razorpay_payment_id
       razorpay_signature fr (At_update transaction, s) =
     (At_insert transaction,
      razorpay_set_paid razorpay_order_id razorpay_payment_id (now_updated fr) s)"
| "verify_step hmac_hex razorpay_secret razorpay_order_id razorpay_payment_id
       razorpay_signature fr (At_insert transaction, s) =
     (At_clear transaction,
      insert_order (razorpay_order_doc transaction razorpay_order_id razorpay_payment_id fr) s)"
| "verify_step hmac_hex razorpay_secret razorpay_order_id razorpay_payment_id
       razorpay_signature fr (At_clear transaction, s) =
     (At_return, clear_cart (txn_user_id transaction) s)"
| "verify_step hmac_hex razorpay_secret razorpay_order_id razorpay_payment_id
       razorpay_signature fr (At_return, s) = (At_return, s)"
| "verify_step hmac_hex razorpay_secret razorpay_order_id razorpay_payment_id
       razorpay_signature fr (At_raised e, s) = (At_raised e, s)"



section \<open>Reviews\<close>

text \<open>
  \<^verbatim>\<open>POST /reviews\<close>. \<open>reviews_found\<close> is \<^verbatim>\<open>reviews\<close> of the source, the result of
  \<^verbatim>\<open>find({"product_id": ...}).to_list(1000)\<close>.
\<close>

definition create_review ::
  "review_create \<Rightarrow> user_doc \<Rightarrow> string \<Rightarrow> string \<Rightarrow> state \<Rightarrow> review_doc \<times> state" where
  "create_review review user new_uuid now s =
     (let review_doc =
            \<lparr>rev_id = new_uuid, rev_product_id = rc_product_id review,
             rev_user_id = user_id user, rev_user_name = user_name user,
             rev_rating = rc_rating review, rev_title = rc_title review,
             rev_comment = rc_comment review, rev_created_at = now\<rparr>;
          s1 = s\<lparr>reviews := reviews s @ [review_doc]\<rparr>;
          reviews_found =
            take 1000 (filter (\<lambda>r. rev_product_id r = rc_product_id review) (reviews s1));
          avg_rating =
            (if reviews_found \<noteq> [] then
               of_int (sum_list (map rev_rating reviews_found)) / of_nat (length reviews_found)
             else 0)
      in (review_doc,
          s1\<lparr>products := update_one
                (\<lambda>p. prod_id p = rc_product_id review)
                (\<lambda>p. p\<lparr>prod_rating := py_round avg_rating 1,
                        prod_reviews_count := int (length reviews_found)\<rparr>)
                (products s1)\<rparr>))"

section \<open>Auxiliary notions and an example shop\<close>


text \<open>
  The example scenario: product P1 costs 300, user u1 holds two of it in the cart and has
  a pending Stripe transaction of 600 for session \<open>cs_1\<close>; user u2 has a pending
  Razorpay transaction for order \<open>order_1\<close>.
\<close>

definition example_product :: product_doc where
  "example_product =
     \<lparr>prod_id = ''P1'', prod_name = ''White Rose Musk'', prod_price = 300,
      prod_rating = 0, prod_reviews_count = 0\<rparr>"

definition example_lines :: "line_item list" where
  "example_lines =
     [\<lparr>line_product_id = ''P1'', line_name = ''White Rose Musk'', line_price = 300,
       line_quantity = 2\<rparr>]"

definition example_stripe_txn :: transaction_doc where
  "example_stripe_txn =
     \<lparr>txn_id = ''t1'', txn_session_id = Some ''cs_1'', txn_razorpay_order_id = None,
      txn_user_id = ''u1'', txn_amount = 600, txn_currency = ''INR'',
      txn_payment_method = ''stripe'', txn_payment_status = ''pending'',
      txn_items = example_lines, txn_created_at = ''d0'',
      txn_razorpay_payment_id = None, txn_updated_at = None\<rparr>"

definition example_razorpay_txn :: transaction_doc where
  "example_razorpay_txn =
     \<lparr>txn_id = ''t2'', txn_session_id = None, txn_razorpay_order_id = Some ''order_1'',
      txn_user_id = ''u2'', txn_amount = 600, txn_currency = ''INR'',
      txn_payment_method = ''razorpay'', txn_payment_status = ''pending'',
      txn_items = example_lines, txn_created_at = ''d0'',
      txn_razorpay_payment_id = None, txn_updated_at = None\<rparr>"

definition example_carts :: "cart_doc list" where
  "example_carts =
     [\<lparr>cart_user_id = ''u1'', cart_items = [\<lparr>product_id = ''P1'', quantity = 2\<rparr>]\<rparr>,
      \<lparr>cart_user_id = ''u2'', cart_items = [\<lparr>product_id = ''P1'', quantity = 2\<rparr>]\<rparr>]"

definition example_shop :: state where
  "example_shop =
     \<lparr>products = [example_product], carts = example_carts,
      payment_transactions = [], orders = [], reviews = [],
      stripe_sessions = [], razorpay_orders = []\<rparr>"

definition example_state :: state where
  "example_state =
     example_shop\<lparr>payment_transactions := [example_stripe_txn, example_razorpay_txn]\<rparr>"

definition example_fresh :: "string \<Rightarrow> fresh" where
  "example_fresh n = \<lparr>new_id = ''o'' @ n, now_updated = ''d1'', now_created = ''d2''\<rparr>"

definition example_paid :: checkout_status_response where
  "example_paid =
     \<lparr>st_status = ''complete'', st_payment_status = ''paid'', st_amount_total = 723,
      st_currency = ''usd''\<rparr>"

text \<open>A stand-in for the keyed hash where a concrete run needs one.\<close>

definition example_hmac :: "string \<Rightarrow> string \<Rightarrow> string" where
  "example_hmac key msg = key @ '':'' @ msg"








text \<open>
  All the reviews of a product in the store, and the arithmetic mean of the ratings of a
  list of reviews.
\<close>

definition product_reviews :: "string \<Rightarrow> state \<Rightarrow> review_doc list" where
  "product_reviews pid s = filter (\<lambda>r. rev_product_id r = pid) (reviews s)"







section \<open>Facts about the collection operations\<close>


lemma update_one_absent: "find_one P xs = None \<Longrightarrow> update_one P f xs = xs"
  by (induction xs) (auto split: if_splits)



section \<open>Reconciliation: what each database call leaves alone\<close>

lemma clear_cart_frame [simp]:
  "payment_transactions (clear_cart u s) = payment_transactions s"
  "orders (clear_cart u s) = orders s"
  by (simp_all add: clear_cart_def)

lemma insert_order_frame [simp]:
  "payment_transactions (insert_order ord s) = payment_transactions s"
  "orders (insert_order ord s) = orders s @ [ord]"
  "carts (insert_order ord s) = carts s"
  by (simp_all add: insert_order_def)

lemma stripe_set_paid_frame [simp]:
  "orders (stripe_set_paid r n s) = orders s"
  "carts (stripe_set_paid r n s) = carts s"
  by (simp_all add: stripe_set_paid_def)

lemma razorpay_set_paid_frame [simp]:
  "orders (razorpay_set_paid r p n s) = orders s"
  "carts (razorpay_set_paid r p n s) = carts s"
  by (simp_all add: razorpay_set_paid_def)

lemma find_by_session_id_frame [simp]:
  "find_by_session_id r (clear_cart u s) = find_by_session_id r s"
  "find_by_session_id r (insert_order ord s) = find_by_session_id r s"
  by (simp_all add: find_by_session_id_def)

lemma find_by_razorpay_order_id_frame [simp]:
  "find_by_razorpay_order_id r (clear_cart u s) = find_by_razorpay_order_id r s"
  "find_by_razorpay_order_id r (insert_order ord s) = find_by_razorpay_order_id r s"
  by (simp_all add: find_by_razorpay_order_id_def)


















section \<open>Checkout initiation: the pricing loop\<close>











section \<open>The amount sent to Stripe\<close>







section \<open>Signature verification\<close>

text \<open>
  Claim C6. The verification route recomputes the keyed hash of the order id, a \<open>|\<close>
  and the payment id under the shared secret and compares it with the signature it was
  given. A signature that differs from the recomputed one raises the 400 error
  \<open>Invalid payment signature\<close> and returns the state it was given (no transaction
  update, no order, no cart change); the route answers with success exactly for the
  signature that is equal to the recomputed one.
\<close>

theorem invalid_signature_rejected:
  assumes mismatch:
    "razorpay_signature \<noteq> hmac_hex secret (razorpay_order_id @ ''|'' @ razorpay_payment_id)"
  shows
    "verify_razorpay_payment hmac_hex (Some secret) razorpay_order_id razorpay_payment_id
        razorpay_signature fr s =
       (Inl (HTTPException 400 ''Invalid payment signature''), s) \<and>
     (\<forall>sg. (fst (verify_razorpay_payment hmac_hex (Some secret) razorpay_order_id
                   razorpay_payment_id sg fr s) = Inr (''success'', ''Payment verified'')) =
           (sg = hmac_hex secret (razorpay_order_id @ ''|'' @ razorpay_payment_id)))"
  using mismatch by (auto simp: verify_razorpay_payment_def Let_def)

text \<open>The matching signature with its last character changed is rejected.\<close>

theorem invalid_signature_rejected_witness:
  "''k:order_1|pay_2'' \<noteq> example_hmac ''k'' (''order_1'' @ ''|'' @ ''pay_1'') \<and>
   verify_razorpay_payment example_hmac (Some ''k'') ''order_1'' ''pay_1'' ''k:order_1|pay_2''
       (example_fresh ''1'') example_state =
     (Inl (HTTPException 400 ''Invalid payment signature''), example_state) \<and>
   fst (verify_razorpay_payment example_hmac (Some ''k'') ''order_1'' ''pay_1'' ''k:order_1|pay_1''
       (example_fresh ''1'') example_state) = Inr (''success'', ''Payment verified'')"
proof -
  have m: "''k:order_1|pay_2'' \<noteq> example_hmac ''k'' (''order_1'' @ ''|'' @ ''pay_1'')"
    by (simp add: example_hmac_def)
  have v: "''k:order_1|pay_1'' = example_hmac ''k'' (''order_1'' @ ''|'' @ ''pay_1'')"
    by (simp add: example_hmac_def)
  from invalid_signature_rejected [where hmac_hex = example_hmac, OF m] m v show ?thesis
    by blast
qed

section \<open>The cart invariant\<close>

text \<open>
  Updating, removing and clearing keep every stored quantity at one or more, and so does
  adding an item whose quantity is at least one.
\<close>

lemma list_all_update_one:
  "list_all Q xs \<Longrightarrow> (\<And>x. P x \<Longrightarrow> Q x \<Longrightarrow> Q (f x)) \<Longrightarrow> list_all Q (update_one P f xs)"
  by (induction xs) auto

lemma pull_items_ok:
  "list_all Q (cart_items c) \<Longrightarrow> list_all Q (cart_items (pull_items pid c))"
  by (simp add: pull_items_def list_all_iff)

lemma update_cart_item_ok: "cart_ok s \<Longrightarrow> cart_ok (update_cart_item item uid s)"
proof (cases "quantity item \<le> 0")
  case True
  assume "cart_ok s"
  with True show ?thesis
    unfolding cart_ok_def update_cart_item_def
    by (simp add: list_all_update_one pull_items_ok)
next
  case False
  assume "cart_ok s"
  with False show ?thesis
    unfolding cart_ok_def update_cart_item_def
    by (simp add: list_all_update_one)
qed

lemma remove_from_cart_ok: "cart_ok s \<Longrightarrow> cart_ok (remove_from_cart pid uid s)"
  unfolding cart_ok_def remove_from_cart_def
  by (simp add: list_all_update_one pull_items_ok)

lemma clear_cart_ok: "cart_ok s \<Longrightarrow> cart_ok (clear_cart uid s)"
  unfolding cart_ok_def clear_cart_def
  by (simp add: list_all_update_one)

lemma add_to_cart_ok:
  assumes ok: "cart_ok s" and pos: "1 \<le> quantity item"
  shows "cart_ok (add_to_cart item uid s)"
proof -
  let ?Q = "\<lambda>c. list_all (\<lambda>i. 1 \<le> quantity i) (cart_items c)"
  from ok have all: "list_all ?Q (carts s)"
    by (simp add: cart_ok_def)
  have inc: "list_all ?Q (update_one P
      (\<lambda>c. c\<lparr>cart_items := update_one (\<lambda>i. product_id i = product_id item)
                (\<lambda>i. i\<lparr>quantity := quantity i + quantity item\<rparr>) (cart_items c)\<rparr>) (carts s))" for P
    using all
  proof (rule list_all_update_one)
    fix c assume "?Q c"
    then have "list_all (\<lambda>i. 1 \<le> quantity i)
        (update_one (\<lambda>i. product_id i = product_id item)
           (\<lambda>i. i\<lparr>quantity := quantity i + quantity item\<rparr>) (cart_items c))"
      by (rule list_all_update_one) (use pos in simp)
    then show "?Q (c\<lparr>cart_items := update_one (\<lambda>i. product_id i = product_id item)
                (\<lambda>i. i\<lparr>quantity := quantity i + quantity item\<rparr>) (cart_items c)\<rparr>)"
      by simp
  qed
  have push: "list_all ?Q (update_one P
      (\<lambda>c. c\<lparr>cart_items := cart_items c @
          [\<lparr>product_id = product_id item, quantity = quantity item\<rparr>]\<rparr>) (carts s))" for P
    using all by (rule list_all_update_one) (use pos in simp)
  show ?thesis
    unfolding cart_ok_def add_to_cart_def
    using all pos inc push by (simp split: option.splits)
qed

text \<open>
  Claim C7. The cart invariant does not hold for \<^const>\<open>add_to_cart\<close>: unlike
  \<^const>\<open>update_cart_item\<close> it does not look at the sign of the quantity. Adding a
  quantity of zero of a product not yet in the cart stores a line with quantity zero,
  and adding a negative quantity of a product in the cart lowers the stored quantity
  below one.
\<close>

theorem add_to_cart_stores_nonpositive:
  "cart_ok example_shop \<and>
   carts (add_to_cart \<lparr>product_id = ''P2'', quantity = 0\<rparr> ''u1'' example_shop) =
     [\<lparr>cart_user_id = ''u1'',
       cart_items = [\<lparr>product_id = ''P1'', quantity = 2\<rparr>, \<lparr>product_id = ''P2'', quantity = 0\<rparr>]\<rparr>,
      \<lparr>cart_user_id = ''u2'', cart_items = [\<lparr>product_id = ''P1'', quantity = 2\<rparr>]\<rparr>] \<and>
   \<not> cart_ok (add_to_cart \<lparr>product_id = ''P2'', quantity = 0\<rparr> ''u1'' example_shop) \<and>
   carts (add_to_cart \<lparr>product_id = ''P1'', quantity = - 5\<rparr> ''u1'' example_shop) =
     [\<lparr>cart_user_id = ''u1'', cart_items = [\<lparr>product_id = ''P1'', quantity = - 3\<rparr>]\<rparr>,
      \<lparr>cart_user_id = ''u2'', cart_items = [\<lparr>product_id = ''P1'', quantity = 2\<rparr>]\<rparr>] \<and>
   \<not> cart_ok (add_to_cart \<lparr>product_id = ''P1'', quantity = - 5\<rparr> ''u1'' example_shop)"
  by (simp add: cart_ok_def add_to_cart_def example_shop_def example_carts_def has_item_def)

section \<open>The webhook\<close>

lemma stripe_webhook_frame:
  "orders (snd (stripe_webhook handled s)) = orders s \<and>
   carts (snd (stripe_webhook handled s)) = carts s"
  by (simp add: stripe_webhook_def split: sum.splits)

text \<open>
  Claim C2. The webhook does not perform the transition the other triggers perform. On a
  valid \<open>paid\<close> event for the pending session \<open>cs_1\<close> it sets the payment status and
  nothing else: no order is inserted and the owner's cart keeps its items. A poll that
  follows finds the transaction paid and inserts no order either, whereas the poll alone
  inserts the order and empties the cart.
\<close>

theorem webhook_creates_no_order:
  "stripe_webhook (Inr \<lparr>wh_session_id = ''cs_1'', wh_payment_status = ''paid''\<rparr>) example_state =
     (''processed'',
      example_state\<lparr>payment_transactions :=
        [example_stripe_txn\<lparr>txn_payment_status := ''paid''\<rparr>, example_razorpay_txn]\<rparr>) \<and>
   orders (snd (stripe_webhook (Inr \<lparr>wh_session_id = ''cs_1'', wh_payment_status = ''paid''\<rparr>)
      example_state)) = [] \<and>
   carts (snd (stripe_webhook (Inr \<lparr>wh_session_id = ''cs_1'', wh_payment_status = ''paid''\<rparr>)
      example_state)) = example_carts \<and>
   orders (snd (get_checkout_status example_paid ''cs_1'' (example_fresh ''1'')
      (snd (stripe_webhook (Inr \<lparr>wh_session_id = ''cs_1'', wh_payment_status = ''paid''\<rparr>)
         example_state)))) = [] \<and>
   orders (snd (get_checkout_status example_paid ''cs_1'' (example_fresh ''1'') example_state)) =
     [stripe_order example_stripe_txn ''cs_1'' (example_fresh ''1'')] \<and>
   carts (snd (get_checkout_status example_paid ''cs_1'' (example_fresh ''1'') example_state)) =
     [\<lparr>cart_user_id = ''u1'', cart_items = []\<rparr>,
      \<lparr>cart_user_id = ''u2'', cart_items = [\<lparr>product_id = ''P1'', quantity = 2\<rparr>]\<rparr>]"
  by (simp add: stripe_webhook_def get_checkout_status_def find_by_session_id_def
      example_state_def example_shop_def example_stripe_txn_def example_razorpay_txn_def
      example_paid_def example_carts_def clear_cart_def insert_order_def stripe_set_paid_def)

section \<open>One trigger, call by call\<close>

lemma clear_cart_carts_frame [simp]:
  "carts (clear_cart u (insert_order ord s)) = carts (clear_cart u s)"
  "carts (clear_cart u (stripe_set_paid r n s)) = carts (clear_cart u s)"
  "carts (clear_cart u (razorpay_set_paid r p n s)) = carts (clear_cart u s)"
  by (simp_all add: clear_cart_def insert_order_def stripe_set_paid_def razorpay_set_paid_def)

text \<open>
  The configurations a handler passes through from its start: at the read, returned
  without a change, about to write the status, about to insert the order (status
  written), about to clear the cart (order inserted), returned after the cart write.
\<close>

lemma poll_reach:
  "(poll_step status sid fr ^^ k) (At_find, s) = (At_find, s) \<or>
   (poll_step status sid fr ^^ k) (At_find, s) = (At_return, s) \<or>
   (\<exists>t. (poll_step status sid fr ^^ k) (At_find, s) = (At_update t, s)) \<or>
   (\<exists>t. (poll_step status sid fr ^^ k) (At_find, s) =
      (At_insert t, stripe_set_paid sid (now_updated fr) s)) \<or>
   (\<exists>t. (poll_step status sid fr ^^ k) (At_find, s) =
      (At_clear t, insert_order (stripe_order t sid fr) (stripe_set_paid sid (now_updated fr) s))) \<or>
   (\<exists>t. (poll_step status sid fr ^^ k) (At_find, s) =
      (At_return, clear_cart (txn_user_id t)
         (insert_order (stripe_order t sid fr) (stripe_set_paid sid (now_updated fr) s))))"
proof (induction k)
  case 0
  show ?case by simp
next
  case (Suc k)
  then show ?case
    by (elim disjE exE) (auto split: option.splits)
qed

lemma verify_reach:
  "(verify_step h sec oid pid sg fr ^^ k) (At_find, s) = (At_find, s) \<or>
   (verify_step h sec oid pid sg fr ^^ k) (At_find, s) = (At_return, s) \<or>
   (\<exists>e. (verify_step h sec oid pid sg fr ^^ k) (At_find, s) = (At_raised e, s)) \<or>
   (\<exists>t. (verify_step h sec oid pid sg fr ^^ k) (At_find, s) = (At_update t, s)) \<or>
   (\<exists>t. (verify_step h sec oid pid sg fr ^^ k) (At_find, s) =
      (At_insert t, razorpay_set_paid oid pid (now_updated fr) s)) \<or>
   (\<exists>t. (verify_step h sec oid pid sg fr ^^ k) (At_find, s) =
      (At_clear t, insert_order (razorpay_order_doc t oid pid fr)
         (razorpay_set_paid oid pid (now_updated fr) s))) \<or>
   (\<exists>t. (verify_step h sec oid pid sg fr ^^ k) (At_find, s) =
      (At_return, clear_cart (txn_user_id t)
         (insert_order (razorpay_order_doc t oid pid fr)
            (razorpay_set_paid oid pid (now_updated fr) s))))"
proof (induction k)
  case 0
  show ?case by simp
next
  case (Suc k)
  then show ?case
    by (elim disjE exE) (auto split: option.splits)
qed

text \<open>Four steps run a handler to its end, with the final state of the route.\<close>

lemma poll_steps_handler:
  "(poll_step status sid fr ^^ 4) (At_find, s) = (At_return, snd (get_checkout_status status sid fr s))"
  by (simp add: eval_nat_numeral get_checkout_status_def split: option.splits)

lemma verify_steps_handler:
  "snd ((verify_step h sec oid pid sg fr ^^ 4) (At_find, s)) =
     snd (verify_razorpay_payment h sec oid pid sg fr s)"
  by (simp add: eval_nat_numeral verify_razorpay_payment_def Let_def split: option.splits)


text \<open>
  Claim C8. Inside one trigger the cart is cleared only after the order has been
  created. After any number \<open>k\<close> of database calls of a poll, or of a verification,
  either the carts are as they were at the start or the order of this trigger has been
  appended to the orders (and the carts differ from the start by the clearing of its
  owner's cart only). Four calls end the handler in the state the route returns.
\<close>

theorem cart_cleared_only_after_order:
  "(carts (snd ((poll_step status sid fr ^^ k) (At_find, s))) = carts s \<or>
    (\<exists>transaction.
       orders (snd ((poll_step status sid fr ^^ k) (At_find, s))) =
         orders s @ [stripe_order transaction sid fr] \<and>
       carts (snd ((poll_step status sid fr ^^ k) (At_find, s))) =
         carts (clear_cart (txn_user_id transaction) s))) \<and>
   (poll_step status sid fr ^^ 4) (At_find, s) =
     (At_return, snd (get_checkout_status status sid fr s)) \<and>
   (carts (snd ((verify_step hmac_hex secret oid pid sg fr ^^ k) (At_find, s))) = carts s \<or>
    (\<exists>transaction.
       orders (snd ((verify_step hmac_hex secret oid pid sg fr ^^ k) (At_find, s))) =
         orders s @ [razorpay_order_doc transaction oid pid fr] \<and>
       carts (snd ((verify_step hmac_hex secret oid pid sg fr ^^ k) (At_find, s))) =
         carts (clear_cart (txn_user_id transaction) s))) \<and>
   snd ((verify_step hmac_hex secret oid pid sg fr ^^ 4) (At_find, s)) =
     snd (verify_razorpay_payment hmac_hex secret oid pid sg fr s)"
proof -
  have poll: "carts (snd ((poll_step status sid fr ^^ k) (At_find, s))) = carts s \<or>
    (\<exists>transaction.
       orders (snd ((poll_step status sid fr ^^ k) (At_find, s))) =
         orders s @ [stripe_order transaction sid fr] \<and>
       carts (snd ((poll_step status sid fr ^^ k) (At_find, s))) =
         carts (clear_cart (txn_user_id transaction) s))"
    using poll_reach [where status = status and sid = sid and fr = fr and k = k and s = s]
    by (elim disjE exE) auto
  have verify: "carts (snd ((verify_step hmac_hex secret oid pid sg fr ^^ k) (At_find, s))) = carts s \<or>
    (\<exists>transaction.
       orders (snd ((verify_step hmac_hex secret oid pid sg fr ^^ k) (At_find, s))) =
         orders s @ [razorpay_order_doc transaction oid pid fr] \<and>
       carts (snd ((verify_step hmac_hex secret oid pid sg fr ^^ k) (At_find, s))) =
         carts (clear_cart (txn_user_id transaction) s))"
    using verify_reach [where h = hmac_hex and sec = secret and oid = oid and pid = pid and sg = sg and fr = fr and k = k and s = s]
    by (elim disjE exE) auto
  from poll verify show ?thesis
    by (simp only: poll_steps_handler verify_steps_handler simp_thms)
qed

text \<open>
  In the example, after three calls the order is there and the carts are untouched;
  the fourth call empties the cart of u1.
\<close>

lemma example_find_stripe: "find_by_session_id ''cs_1'' example_state = Some example_stripe_txn"
  by (simp add: find_by_session_id_def example_state_def example_stripe_txn_def)

lemma example_pending: "txn_payment_status example_stripe_txn \<noteq> ''paid''"
  by (simp add: example_stripe_txn_def)

lemma example_owner: "txn_user_id example_stripe_txn = ''u1''"
  by (simp add: example_stripe_txn_def)

lemma example_paid_status: "st_payment_status example_paid = ''paid''"
  by (simp add: example_paid_def)

theorem cart_cleared_only_after_order_witness:
  "orders (snd ((poll_step example_paid ''cs_1'' (example_fresh ''1'') ^^ 3) (At_find, example_state))) =
     [stripe_order example_stripe_txn ''cs_1'' (example_fresh ''1'')] \<and>
   carts (snd ((poll_step example_paid ''cs_1'' (example_fresh ''1'') ^^ 3) (At_find, example_state))) =
     example_carts \<and>
   orders (snd ((poll_step example_paid ''cs_1'' (example_fresh ''1'') ^^ 4) (At_find, example_state))) =
     [stripe_order example_stripe_txn ''cs_1'' (example_fresh ''1'')] \<and>
   carts (snd ((poll_step example_paid ''cs_1'' (example_fresh ''1'') ^^ 4) (At_find, example_state))) =
     [\<lparr>cart_user_id = ''u1'', cart_items = []\<rparr>,
      \<lparr>cart_user_id = ''u2'', cart_items = [\<lparr>product_id = ''P1'', quantity = 2\<rparr>]\<rparr>] \<and>
   snd (get_checkout_status example_paid ''cs_1'' (example_fresh ''1'') example_state) =
     snd ((poll_step example_paid ''cs_1'' (example_fresh ''1'') ^^ 4) (At_find, example_state))"
proof -
  have o: "orders example_state = []" and c: "carts example_state = example_carts"
    by (simp_all add: example_state_def example_shop_def)
  have cc: "carts (clear_cart ''u1'' example_state) =
     [\<lparr>cart_user_id = ''u1'', cart_items = []\<rparr>,
      \<lparr>cart_user_id = ''u2'', cart_items = [\<lparr>product_id = ''P1'', quantity = 2\<rparr>]\<rparr>]"
    by (simp add: clear_cart_def c example_carts_def)
  have three: "(poll_step example_paid ''cs_1'' (example_fresh ''1'') ^^ 3) (At_find, example_state) =
      (At_clear example_stripe_txn,
       insert_order (stripe_order example_stripe_txn ''cs_1'' (example_fresh ''1''))
         (stripe_set_paid ''cs_1'' (now_updated (example_fresh ''1'')) example_state))"
    by (simp add: eval_nat_numeral example_find_stripe example_pending example_paid_status)
  have four: "(poll_step example_paid ''cs_1'' (example_fresh ''1'') ^^ 4) (At_find, example_state) =
      (At_return, clear_cart ''u1''
       (insert_order (stripe_order example_stripe_txn ''cs_1'' (example_fresh ''1''))
         (stripe_set_paid ''cs_1'' (now_updated (example_fresh ''1'')) example_state)))"
    by (simp add: eval_nat_numeral example_find_stripe example_pending example_paid_status example_owner)
  from cart_cleared_only_after_order [where status = example_paid and sid = "''cs_1''" and
      fr = "example_fresh ''1''" and s = example_state]
  have "(poll_step example_paid ''cs_1'' (example_fresh ''1'') ^^ 4) (At_find, example_state) =
     (At_return, snd (get_checkout_status example_paid ''cs_1'' (example_fresh ''1'') example_state))"
    by blast
  then have "snd (get_checkout_status example_paid ''cs_1'' (example_fresh ''1'') example_state) =
     snd ((poll_step example_paid ''cs_1'' (example_fresh ''1'') ^^ 4) (At_find, example_state))"
    by simp
  then show ?thesis
    by (simp add: three four o c cc)
qed

section \<open>Two triggers in flight\<close>










section \<open>Review creation\<close>

lemma create_review_reviews:
  "reviews (snd (create_review review user new_uuid now s)) =
     reviews s @
       [\<lparr>rev_id = new_uuid, rev_product_id = rc_product_id review,
         rev_user_id = user_id user, rev_user_name = user_name user,
         rev_rating = rc_rating review, rev_title = rc_title review,
         rev_comment = rc_comment review, rev_created_at = now\<rparr>]"
  by (simp add: create_review_def Let_def)

lemma create_review_found_nonempty:
  "take 1000 (product_reviews (rc_product_id review) (snd (create_review review user new_uuid now s))) \<noteq> []"
  by (simp add: product_reviews_def create_review_reviews)








end
